theory Spec2Isabelle
  imports Main "HOL-Library.AList"
begin

section \<open>JavaScript values carried by events\<close>

text \<open>
  Event payloads are JSON values. Numbers (IEEE doubles) are left out of the model; every
  other JSON form is present, with \<open>JUndef\<close> for JavaScript's \<open>undefined\<close>. An object is
  an association list of its properties in the order they were added (the rule of the
  language that lists integer-like names first is not modelled).
\<close>

datatype jv =
    JUndef
  | JNull
  | JBool bool
  | JStr string
  | JArr "jv list"
  | JObj "(string \<times> jv) list"

datatype error = TypeError

fun join_comma :: "string list \<Rightarrow> string" where
  "join_comma [] = []"
| "join_comma [x] = x"
| "join_comma (x # y # ys) = x @ '','' @ join_comma (y # ys)"

text \<open>String conversion as a template literal \<open>`${v}`\<close> performs it.\<close>

fun js_string :: "jv \<Rightarrow> string" where
  "js_string JUndef = ''undefined''"
| "js_string JNull = ''null''"
| "js_string (JBool b) = (if b then ''true'' else ''false'')"
| "js_string (JStr s) = s"
| "js_string (JArr xs) =
     join_comma (map (\<lambda>v. if v = JUndef \<or> v = JNull then [] else js_string v) xs)"
| "js_string (JObj kvs) = ''[object Object]''"

definition nullish :: "jv \<Rightarrow> bool" where
  "nullish v = (v = JUndef \<or> v = JNull)"

text \<open>
  \<open>x || y\<close> yields \<open>x\<close> when \<open>x\<close> is truthy. Without numbers the falsy values are
  \<open>undefined\<close>, \<open>null\<close>, \<open>false\<close> and the empty string.
\<close>

definition truthy :: "jv \<Rightarrow> bool" where
  "truthy v = (\<not> nullish v \<and> v \<noteq> JBool False \<and> v \<noteq> JStr [])"

definition js_or :: "jv \<Rightarrow> jv \<Rightarrow> jv" where
  "js_or x y = (if truthy x then x else y)"

text \<open>
  Reading a named property of a value that is neither \<open>undefined\<close> nor \<open>null\<close>
  (destructuring \<open>const { k } = data\<close>, or \<open>data.k\<close>). The property names read by the
  server are identifiers that no string, boolean or array carries, so only objects answer.
  On \<open>undefined\<close> and \<open>null\<close> the read throws; every handler tests \<open>nullish\<close> first.
\<close>

fun field :: "jv \<Rightarrow> string \<Rightarrow> jv" where
  "field (JObj kvs) k = (case map_of kvs k of None \<Rightarrow> JUndef | Some v \<Rightarrow> v)"
| "field _ k = JUndef"

fun dec :: "nat \<Rightarrow> string" where
  "dec n = (if n < 10 then [''0123456789'' ! n]
            else dec (n div 10) @ [''0123456789'' ! (n mod 10)])"

declare dec.simps [simp del]

text \<open>
  The own enumerable properties of a value, as the rest pattern \<open>{ k, ...rest }\<close> and the
  spread \<open>{ ...data }\<close> enumerate them: the properties of an object, the indexed elements
  of an array or a string, nothing for the other values.
\<close>

fun own_props :: "jv \<Rightarrow> (string \<times> jv) list" where
  "own_props (JObj kvs) = kvs"
| "own_props (JArr xs) = zip (map dec [0..<length xs]) xs"
| "own_props (JStr s) = zip (map dec [0..<length s]) (map (\<lambda>c. JStr [c]) s)"
| "own_props _ = []"

definition rest_props :: "string list \<Rightarrow> jv \<Rightarrow> (string \<times> jv) list" where
  "rest_props ks data = filter (\<lambda>(k, v). k \<notin> set ks) (own_props data)"

text \<open>An object literal assigns its properties left to right; a repeated name keeps its
  place and takes the later value.\<close>

definition obj_lit :: "(string \<times> jv) list \<Rightarrow> jv" where
  "obj_lit kvs = JObj (foldl (\<lambda>acc (k, v). AList.update k v acc) [] kvs)"

section \<open>Connections, principals and server state\<close>

type_synonym sid = string

text \<open>
  The principal that \<open>authenticateSocket\<close> attaches to a socket as \<open>socket.user\<close>, with
  the three properties the handlers read. \<open>user_id\<close> and \<open>email\<close> are strings, as in the
  principal that the middleware itself builds; \<open>full_name\<close> stands for
  \<open>user_metadata?.full_name\<close> and is \<open>JUndef\<close> when absent.
\<close>

record principal =
  user_id :: string
  email :: string
  full_name :: jv

record socket =
  sock_id :: sid
  user :: principal

datatype nsp = Main_nsp | Signaling | Tasks | Docs | VideoConference | Chat

record presence =
  pr_id :: string
  pr_email :: string
  socketId :: sid
  connectedAt :: nat

record participant =
  p_id :: sid
  p_user_id :: string
  p_user_name :: jv
  p_user_email :: string
  peer_id :: jv

text \<open>
  The two process-wide \<open>Map\<close>s are association lists in insertion order, and so is the
  \<open>Map\<close> of participants inside each meeting. On string keys (principal and socket
  identifiers) \<open>Map.set\<close> is \<open>AList.update\<close> (an existing key keeps its place, a new one
  goes last), \<open>Map.delete\<close> is \<open>AList.delete\<close> and \<open>Map.get\<close> is \<open>map_of\<close>.
  \<open>meetingParticipants\<close> is keyed by whatever value the payload gives as \<open>meetingId\<close>.

  \<open>connected\<close> and \<open>rooms\<close> are the transport's own bookkeeping per namespace: the sockets
  currently connected and the members of each room. The private room that the transport
  forms for each socket under the socket's own identifier is left out; no room name built
  from a prefix (\<open>meeting:\<close>, \<open>doc:\<close>, \<open>conversation:\<close>) is such an identifier.
\<close>

record server =
  onlineUsers :: "(string \<times> presence) list"
  meetingParticipants :: "(jv \<times> (sid \<times> participant) list) list"
  connected :: "nsp \<Rightarrow> sid set"
  rooms :: "nsp \<times> jv \<Rightarrow> sid set"

text \<open>
  \<open>Map.has\<close> and \<open>Map.get\<close> with a key taken from a payload. A \<open>Map\<close> compares primitive
  keys by value. An array or object in a payload is a fresh reference, identical to no key
  stored before, so it is never found.
\<close>

fun primitive :: "jv \<Rightarrow> bool" where
  "primitive (JArr xs) = False"
| "primitive (JObj kvs) = False"
| "primitive _ = True"

definition Map_get :: "(jv \<times> 'v) list \<Rightarrow> jv \<Rightarrow> 'v option" where
  "Map_get m k = (if primitive k then map_of m k else None)"

definition init :: server where
  "init = \<lparr> onlineUsers = [], meetingParticipants = [],
            connected = (\<lambda>_. {}), rooms = (\<lambda>_. {}) \<rparr>"

text \<open>
  What a handler sends: \<open>socket.emit\<close> (to the socket itself), \<open>socket.to(room).emit\<close>
  (to the room, the sender excepted) and \<open>socket.broadcast.emit\<close> (to every socket of the
  namespace, the sender excepted), each with an event name and a payload. The argument of
  \<open>socket.to\<close>, \<open>socket.join\<close> and \<open>socket.leave\<close> is taken as the name of one room.
\<close>

datatype target = ToSelf | To jv | Broadcast

type_synonym emission = "target \<times> string \<times> jv"

definition recipients :: "server \<Rightarrow> nsp \<Rightarrow> sid \<Rightarrow> target \<Rightarrow> sid set" where
  "recipients st ns sender t =
     (case t of
        ToSelf \<Rightarrow> {sender}
      | To room \<Rightarrow> rooms st (ns, room) - {sender}
      | Broadcast \<Rightarrow> connected st ns - {sender})"

definition socket_join :: "nsp \<Rightarrow> socket \<Rightarrow> jv \<Rightarrow> server \<Rightarrow> server" where
  "socket_join ns s room st =
     st\<lparr>rooms := (rooms st)((ns, room) := insert (sock_id s) (rooms st (ns, room)))\<rparr>"

definition socket_leave :: "nsp \<Rightarrow> socket \<Rightarrow> jv \<Rightarrow> server \<Rightarrow> server" where
  "socket_leave ns s room st =
     st\<lparr>rooms := (rooms st)((ns, room) := rooms st (ns, room) - {sock_id s})\<rparr>"

type_synonym handler = "socket \<Rightarrow> jv \<Rightarrow> server \<Rightarrow> error + (server \<times> emission list)"

text \<open>\<open>user_metadata?.full_name || email.split('@')[0]\<close>\<close>

definition display_name :: "principal \<Rightarrow> jv" where
  "display_name u = js_or (full_name u) (JStr (takeWhile (\<lambda>c. c \<noteq> CHR ''@'') (email u)))"

text \<open>\<open>user_metadata?.full_name || email\<close>\<close>

definition name_or_email :: "principal \<Rightarrow> jv" where
  "name_or_email u = js_or (full_name u) (JStr (email u))"


section \<open>The handlers, in the order the server registers them\<close>

text \<open>
  A handler runs on one inbound event of one socket. It either throws (a \<open>TypeError\<close>
  when it reads a property of \<open>undefined\<close> or \<open>null\<close>, which every handler below does
  before any effect) or returns the new server state and the emissions it made, in order.
  Logging is not modelled.
\<close>

definition room_name :: "string \<Rightarrow> jv \<Rightarrow> jv" where
  "room_name prefix ident = JStr (prefix @ js_string ident)"

text \<open>The common shape \<open>socket.to(`prefix${data.key}`).emit(ev, payload)\<close>.\<close>

definition relay :: "string \<Rightarrow> string \<Rightarrow> string \<Rightarrow> (socket \<Rightarrow> jv \<Rightarrow> jv) \<Rightarrow> handler" where
  "relay prefix key ev payload s data st =
     (if nullish data then Inl TypeError
      else Inr (st, [(To (room_name prefix (field data key)), ev, payload s data)]))"

subsection \<open>Main namespace\<close>

definition presence_of :: "socket \<Rightarrow> nat \<Rightarrow> presence" where
  "presence_of s now =
     \<lparr> pr_id = user_id (user s), pr_email = email (user s),
       socketId = sock_id s, connectedAt = now \<rparr>"

definition presence_event :: "socket \<Rightarrow> jv" where
  "presence_event s =
     JObj [(''userId'', JStr (user_id (user s))), (''userEmail'', JStr (email (user s)))]"

text \<open>First \<open>io.on('connection')\<close> listener; \<open>now\<close> is what \<open>new Date()\<close> returns.\<close>

definition main_connection_1 :: "socket \<Rightarrow> nat \<Rightarrow> server \<Rightarrow> server \<times> emission list" where
  "main_connection_1 s now st =
     (let st1 = st\<lparr>onlineUsers :=
                   AList.update (user_id (user s)) (presence_of s now) (onlineUsers st)\<rparr>
      in (st1,
          [(Broadcast, ''user-online'', presence_event s),
           (ToSelf, ''online-users-list'',
              JObj [(''users'',
                 JArr (map (\<lambda>u. JObj [(''id'', JStr (pr_id u)), (''email'', JStr (pr_email u))])
                        (map snd (onlineUsers st1))))])]))"

text \<open>Second \<open>io.on('connection')\<close> listener: it stores the presence record again and
  emits nothing.\<close>

definition main_connection_2 :: "socket \<Rightarrow> nat \<Rightarrow> server \<Rightarrow> server \<times> emission list" where
  "main_connection_2 s now st =
     (st\<lparr>onlineUsers :=
           AList.update (user_id (user s)) (presence_of s now) (onlineUsers st)\<rparr>, [])"

text \<open>\<open>join-presence\<close>: \<open>redis\<close> is \<open>null\<close> for the life of the process, so nothing happens.\<close>

definition join_presence :: handler where
  "join_presence s data st = Inr (st, [])"

text \<open>\<open>disconnect\<close> of the first listener; the one of the second listener only logs.\<close>

definition main_disconnect :: "socket \<Rightarrow> server \<Rightarrow> server \<times> emission list" where
  "main_disconnect s st =
     (st\<lparr>onlineUsers := AList.delete (user_id (user s)) (onlineUsers st)\<rparr>,
      [(Broadcast, ''user-offline'', presence_event s)])"

definition send_message :: handler where
  "send_message = relay ''conversation:'' ''conversationId'' ''new-message''
     (\<lambda>s data. field data ''message'')"

definition typing :: handler where
  "typing = relay ''conversation:'' ''conversationId'' ''user-typing''
     (\<lambda>s data. presence_event s)"

definition stop_typing :: handler where
  "stop_typing = relay ''conversation:'' ''conversationId'' ''user-stop-typing''
     (\<lambda>s data. presence_event s)"

definition messages_read :: handler where
  "messages_read = relay ''conversation:'' ''conversationId'' ''messages-read''
     (\<lambda>s data. JObj [(''conversationId'', field data ''conversationId''),
                      (''messageIds'', field data ''messageIds''),
                      (''readAt'', field data ''readAt''),
                      (''readBy'', JStr (user_id (user s)))])"

definition main_handlers :: "(string \<times> handler) list" where
  "main_handlers =
     [(''join-presence'', join_presence),
      (''send-message'', send_message),
      (''typing'', typing),
      (''stop-typing'', stop_typing),
      (''messages-read'', messages_read)]"

subsection \<open>Signaling namespace\<close>

definition join_room :: handler where
  "join_room s roomId st =
     Inr (socket_join Signaling s roomId st,
          [(To roomId, ''user-joined'',
              JObj [(''user_id'', JStr (user_id (user s))),
                    (''user_name'', name_or_email (user s))])])"

definition leave_room :: handler where
  "leave_room s roomId st =
     Inr (socket_leave Signaling s roomId st,
          [(To roomId, ''user-left'', JObj [(''user_id'', JStr (user_id (user s)))])])"

definition offer :: handler where
  "offer s data st =
     (if nullish data then Inl TypeError
      else Inr (st, [(To (field data ''roomId''), ''offer'',
                       JObj [(''offer'', field data ''offer''),
                             (''from'', JStr (user_id (user s)))])]))"

definition answer :: handler where
  "answer s data st =
     (if nullish data then Inl TypeError
      else Inr (st, [(To (field data ''roomId''), ''answer'',
                       JObj [(''answer'', field data ''answer''),
                             (''from'', JStr (user_id (user s)))])]))"

definition signaling_handlers :: "(string \<times> handler) list" where
  "signaling_handlers =
     [(''join-room'', join_room), (''leave-room'', leave_room),
      (''offer'', offer), (''answer'', answer)]"

subsection \<open>Tasks namespace\<close>

definition task_event :: "string \<Rightarrow> handler" where
  "task_event ev s data st = Inr (st, [(Broadcast, ev, data)])"

definition tasks_handlers :: "(string \<times> handler) list" where
  "tasks_handlers =
     [(''task-updated'', task_event ''task-updated''),
      (''task-created'', task_event ''task-created''),
      (''task-deleted'', task_event ''task-deleted'')]"

subsection \<open>Documents namespace\<close>

definition join_document :: handler where
  "join_document s docId st = Inr (socket_join Docs s (room_name ''doc:'' docId) st, [])"

definition leave_document :: handler where
  "leave_document s docId st = Inr (socket_leave Docs s (room_name ''doc:'' docId) st, [])"

definition document_update :: handler where
  "document_update = relay ''doc:'' ''docId'' ''document-update'' (\<lambda>s data. data)"

definition cursor_update :: handler where
  "cursor_update = relay ''doc:'' ''docId'' ''cursor-update''
     (\<lambda>s data. obj_lit ([(''user_id'', JStr (user_id (user s))),
                          (''user_name'', name_or_email (user s))] @ own_props data))"

definition docs_handlers :: "(string \<times> handler) list" where
  "docs_handlers =
     [(''join-document'', join_document), (''leave-document'', leave_document),
      (''document-update'', document_update), (''cursor-update'', cursor_update)]"

subsection \<open>Video-conference namespace\<close>

definition new_participant :: "socket \<Rightarrow> participant" where
  "new_participant s =
     \<lparr> p_id = sock_id s, p_user_id = user_id (user s),
       p_user_name = display_name (user s), p_user_email = email (user s),
       peer_id = JNull \<rparr>"

text \<open>A participant record as the object an emission carries.\<close>

definition participant_jv :: "participant \<Rightarrow> jv" where
  "participant_jv p =
     JObj [(''id'', JStr (p_id p)), (''user_id'', JStr (p_user_id p)),
           (''user_name'', p_user_name p), (''user_email'', JStr (p_user_email p)),
           (''peer_id'', peer_id p)]"

text \<open>\<open>Array.from(participants.values()).filter(p => p.id !== socket.id)\<close>\<close>

definition others :: "socket \<Rightarrow> (sid \<times> participant) list \<Rightarrow> participant list" where
  "others s participants = filter (\<lambda>p. p_id p \<noteq> sock_id s) (map snd participants)"

text \<open>
  \<open>join-meeting\<close>. When the meeting has no entry, \<open>set(meetingId, new Map())\<close> appends one
  and the following \<open>get(meetingId)\<close> yields that new \<open>Map\<close>; otherwise the stored \<open>Map\<close>
  is updated in place.
\<close>

definition join_meeting :: handler where
  "join_meeting s data st =
     (if nullish data then Inl TypeError
      else
        let meetingId = field data ''meetingId'';
            st1 = socket_join VideoConference s (room_name ''meeting:'' meetingId) st;
            mp = meetingParticipants st1;
            (mp', participants) =
               (case Map_get mp meetingId of
                  None \<Rightarrow>
                    (let participants = AList.update (sock_id s) (new_participant s) []
                     in (mp @ [(meetingId, participants)], participants))
                | Some ps \<Rightarrow>
                    (let participants = AList.update (sock_id s) (new_participant s) ps
                     in (AList.update meetingId participants mp, participants)));
            existingParticipants = others s participants
        in Inr (st1\<lparr>meetingParticipants := mp'\<rparr>,
                [(ToSelf, ''existing-participants'',
                    JArr (map participant_jv existingParticipants)),
                 (To (room_name ''meeting:'' meetingId), ''participant-joined'',
                    JObj [(''id'', JStr (sock_id s)),
                          (''user_id'', JStr (user_id (user s))),
                          (''user_name'', display_name (user s)),
                          (''user_email'', JStr (email (user s))),
                          (''peer_id'', JNull)])]))"

definition peer_connected :: handler where
  "peer_connected s data st =
     (if nullish data then Inl TypeError
      else
        let meetingId = field data ''meetingId'';
            peerId = field data ''peerId'';
            mp = meetingParticipants st;
            mp' = (case Map_get mp meetingId of
                     None \<Rightarrow> mp
                   | Some participants \<Rightarrow>
                       (case map_of participants (sock_id s) of
                          None \<Rightarrow> mp
                        | Some participant \<Rightarrow>
                            AList.update meetingId
                              (AList.update (sock_id s) (participant\<lparr>peer_id := peerId\<rparr>)
                                 participants) mp))
        in Inr (st\<lparr>meetingParticipants := mp'\<rparr>,
                [(To (room_name ''meeting:'' meetingId), ''peer-connected'',
                    JObj [(''participantId'', JStr (sock_id s)), (''peerId'', peerId)])]))"

definition get_participants :: handler where
  "get_participants s data st =
     (if nullish data then Inl TypeError
      else
        (case Map_get (meetingParticipants st) (field data ''meetingId'') of
           Some participants \<Rightarrow>
             Inr (st, [(ToSelf, ''existing-participants'',
                          JArr (map participant_jv (others s participants)))])
         | None \<Rightarrow> Inr (st, [(ToSelf, ''existing-participants'', JArr [])])))"

definition leave_meeting :: handler where
  "leave_meeting s data st =
     (if nullish data then Inl TypeError
      else
        let meetingId = field data ''meetingId''
        in Inr (socket_leave VideoConference s (room_name ''meeting:'' meetingId) st,
                [(To (room_name ''meeting:'' meetingId), ''participant-left'',
                    JObj [(''id'', JStr (sock_id s)),
                          (''user_id'', JStr (user_id (user s)))])]))"

text \<open>\<open>webrtc-offer\<close>, \<open>webrtc-answer\<close> and \<open>webrtc-ice-candidate\<close> differ in the event
  name and in the one payload property they forward (\<open>body\<close>).\<close>

definition webrtc :: "string \<Rightarrow> string \<Rightarrow> handler" where
  "webrtc ev body = relay ''meeting:'' ''meetingId'' ev
     (\<lambda>s data. JObj [(body, field data body),
                      (''from'', display_name (user s)),
                      (''fromParticipantId'', JStr (sock_id s))])"

definition participant_update_1 :: handler where
  "participant_update_1 = relay ''meeting:'' ''meetingId'' ''participant-updated''
     (\<lambda>s data. obj_lit ((''id'', field data ''participantId'')
                          # rest_props [''participantId'', ''meetingId''] data))"

definition speaking_status :: handler where
  "speaking_status = relay ''meeting:'' ''meetingId'' ''speaking-status''
     (\<lambda>s data. JObj [(''participantId'', field data ''participantId''),
                      (''isSpeaking'', field data ''isSpeaking'')])"

definition chat_message_1 :: handler where
  "chat_message_1 = relay ''meeting:'' ''meetingId'' ''chat-message''
     (\<lambda>s data. JObj (rest_props [''meetingId''] data))"

definition reaction :: handler where
  "reaction = relay ''meeting:'' ''meetingId'' ''reaction''
     (\<lambda>s data. obj_lit (rest_props [''meetingId''] data
                          @ [(''user_name'', display_name (user s))]))"

text \<open>The remaining relays forward the payload as it came.\<close>

definition forward :: "string \<Rightarrow> handler" where
  "forward ev = relay ''meeting:'' ''meetingId'' ev (\<lambda>s data. data)"

definition vc_handlers :: "(string \<times> handler) list" where
  "vc_handlers =
     [(''join-meeting'', join_meeting),
      (''peer-connected'', peer_connected),
      (''get-participants'', get_participants),
      (''leave-meeting'', leave_meeting),
      (''webrtc-offer'', webrtc ''webrtc-offer'' ''offer''),
      (''webrtc-answer'', webrtc ''webrtc-answer'' ''answer''),
      (''webrtc-ice-candidate'', webrtc ''webrtc-ice-candidate'' ''candidate''),
      (''participant-update'', participant_update_1),
      (''speaking-status'', speaking_status),
      (''chat-message'', chat_message_1),
      (''reaction'', reaction),
      (''raise-hand'', forward ''hand-raised''),
      (''participant-update'', forward ''participant-updated''),
      (''mute-participant'', forward ''participant-muted''),
      (''remove-participant'', forward ''participant-removed''),
      (''chat-message'', forward ''chat-message'')]"

text \<open>
  The \<open>disconnect\<close> handler walks \<open>meetingParticipants.forEach\<close>: the entries in insertion
  order, each callback receiving the entry's own \<open>Map\<close> of participants and its key. The
  callback changes no entry but the one it visits, which it may delete.
\<close>

fun cleanup_meetings ::
  "socket \<Rightarrow> (jv \<times> (sid \<times> participant) list) list
     \<Rightarrow> (jv \<times> (sid \<times> participant) list) list \<times> emission list" where
  "cleanup_meetings s [] = ([], [])"
| "cleanup_meetings s ((meetingId, participants) # entries) =
     (let (entries', ems) = cleanup_meetings s entries
      in if map_of participants (sock_id s) \<noteq> None then
           let participants' = AList.delete (sock_id s) participants
           in ((if participants' = [] then entries' else (meetingId, participants') # entries'),
               (To (room_name ''meeting:'' meetingId), ''participant-left'',
                  JObj [(''id'', JStr (sock_id s)),
                        (''user_id'', JStr (user_id (user s)))]) # ems)
         else ((meetingId, participants) # entries', ems))"

definition vc_disconnect :: "socket \<Rightarrow> server \<Rightarrow> server \<times> emission list" where
  "vc_disconnect s st =
     (let (mp, ems) = cleanup_meetings s (meetingParticipants st)
      in (st\<lparr>meetingParticipants := mp\<rparr>, ems))"

section \<open>Dispatch\<close>

definition handlers :: "nsp \<Rightarrow> (string \<times> handler) list" where
  "handlers ns =
     (case ns of
        Main_nsp \<Rightarrow> main_handlers
      | Signaling \<Rightarrow> signaling_handlers
      | Tasks \<Rightarrow> tasks_handlers
      | Docs \<Rightarrow> docs_handlers
      | VideoConference \<Rightarrow> vc_handlers
      | Chat \<Rightarrow> [])"

text \<open>Every listener registered for an event name runs, in registration order; a throw
  ends the run.\<close>

fun run_handlers :: "handler list \<Rightarrow> handler" where
  "run_handlers [] s data st = Inr (st, [])"
| "run_handlers (h # hs) s data st =
     (case h s data st of
        Inl e \<Rightarrow> Inl e
      | Inr (st1, ems1) \<Rightarrow>
          (case run_handlers hs s data st1 of
             Inl e \<Rightarrow> Inl e
           | Inr (st2, ems2) \<Rightarrow> Inr (st2, ems1 @ ems2)))"

definition on_event :: "nsp \<Rightarrow> string \<Rightarrow> handler list" where
  "on_event ns ev = map snd (filter (\<lambda>(name, h). name = ev) (handlers ns))"

definition client_event :: "nsp \<Rightarrow> socket \<Rightarrow> string \<Rightarrow> jv \<Rightarrow> server \<Rightarrow> error + (server \<times> emission list)" where
  "client_event ns s ev data st = run_handlers (on_event ns ev) s data st"

text \<open>A new connection: the transport records the socket, then the namespace's
  \<open>connection\<close> listeners run (two on the main namespace, each reading the clock).\<close>

definition connect :: "nsp \<Rightarrow> socket \<Rightarrow> nat \<Rightarrow> nat \<Rightarrow> server \<Rightarrow> server \<times> emission list" where
  "connect ns s now1 now2 st =
     (let st0 = st\<lparr>connected := (connected st)(ns := insert (sock_id s) (connected st ns))\<rparr>
      in if ns = Main_nsp then
           (let (st1, ems1) = main_connection_1 s now1 st0;
                (st2, ems2) = main_connection_2 s now2 st1
            in (st2, ems1 @ ems2))
         else (st0, []))"

text \<open>A closed connection: the transport takes the socket out of the namespace and out
  of every room of it, then the \<open>disconnect\<close> listeners run.\<close>

definition disconnect :: "nsp \<Rightarrow> socket \<Rightarrow> server \<Rightarrow> server \<times> emission list" where
  "disconnect ns s st =
     (let st0 = st\<lparr>connected := (connected st)(ns := connected st ns - {sock_id s}),
                   rooms := (\<lambda>(n, r). if n = ns then rooms st (n, r) - {sock_id s}
                                       else rooms st (n, r))\<rparr>
      in if ns = Main_nsp then main_disconnect s st0
         else if ns = VideoConference then vc_disconnect s st0
         else (st0, []))"

datatype event =
    Connect nsp socket nat nat
  | Client nsp socket string jv
  | Disconnect nsp socket

fun step :: "event \<Rightarrow> server \<Rightarrow> error + (server \<times> emission list)" where
  "step (Connect ns s now1 now2) st = Inr (connect ns s now1 now2 st)"
| "step (Client ns s ev data) st = client_event ns s ev data st"
| "step (Disconnect ns s) st = Inr (disconnect ns s st)"

text \<open>
  The states the server can be in: those the events lead to from the start, each event
  being handled without a throw. Nothing here ties an event to a socket that is
  connected, so the relation holds of every state the running server reaches and of
  more; what is proved of all of them holds of the server.
\<close>

inductive reachable :: "server \<Rightarrow> bool" where
  reachable_init: "reachable init"
| reachable_step: "reachable st \<Longrightarrow> step e st = Inr (st', ems) \<Longrightarrow> reachable st'"

text \<open>Running a sequence of events from a state, keeping the final state.\<close>

fun run_events :: "event list \<Rightarrow> server \<Rightarrow> error + server" where
  "run_events [] st = Inr st"
| "run_events (e # es) st =
     (case step e st of Inl x \<Rightarrow> Inl x | Inr (st', ems) \<Rightarrow> run_events es st')"

section \<open>Sample principals, connections and payloads\<close>

definition ann :: principal where
  "ann = \<lparr> user_id = ''u1'', email = ''ann@example.com'', full_name = JStr ''Ann'' \<rparr>"

definition bob :: principal where
  "bob = \<lparr> user_id = ''u2'', email = ''bob@example.com'', full_name = JUndef \<rparr>"

definition sockA :: socket where
  "sockA = \<lparr> sock_id = ''sA'', user = ann \<rparr>"

text \<open>A second connection of the same principal.\<close>

definition sockA2 :: socket where
  "sockA2 = \<lparr> sock_id = ''sA2'', user = ann \<rparr>"

definition sockB :: socket where
  "sockB = \<lparr> sock_id = ''sB'', user = bob \<rparr>"

definition in_M1 :: jv where
  "in_M1 = JObj [(''meetingId'', JStr ''M1'')]"




text \<open>Both sample connections in meeting \<open>M1\<close>.\<close>

definition two_in_M1 :: server where
  "two_in_M1 =
     \<lparr> onlineUsers = [],
       meetingParticipants =
         [(JStr ''M1'', [(''sA'', new_participant sockA), (''sB'', new_participant sockB)])],
       connected = (\<lambda>_. {})(VideoConference := {''sB'', ''sA''}),
       rooms = (\<lambda>_. {})((VideoConference, JStr ''meeting:M1'') := {''sB'', ''sA''}) \<rparr>"

text \<open>Three meetings: both connections in \<open>M1\<close>, \<open>sA\<close> alone in \<open>M2\<close>, \<open>sB\<close> alone in \<open>M3\<close>.\<close>

definition three_meetings :: server where
  "three_meetings =
     \<lparr> onlineUsers = [],
       meetingParticipants =
         [(JStr ''M1'', [(''sA'', new_participant sockA), (''sB'', new_participant sockB)]),
          (JStr ''M2'', [(''sA'', new_participant sockA)]),
          (JStr ''M3'', [(''sB'', new_participant sockB)])],
       connected = (\<lambda>_. {})(VideoConference := {''sB'', ''sA''}),
       rooms = (\<lambda>_. {}) \<rparr>"


definition typing_c1 :: jv where
  "typing_c1 = JObj [(''conversationId'', JStr ''c1'')]"

text \<open>\<open>sA\<close> has joined \<open>M1\<close> and left it again; \<open>sB\<close> is connected.\<close>

definition a_left_M1 :: server where
  "a_left_M1 =
     \<lparr> onlineUsers = [],
       meetingParticipants = [(JStr ''M1'', [(''sA'', new_participant sockA)])],
       connected = (\<lambda>_. {})(VideoConference := {''sB'', ''sA''}),
       rooms = (\<lambda>_. {})((VideoConference, JStr ''meeting:M1'') := {}) \<rparr>"



text \<open>The principal of \<open>sA\<close> has connected a second time, as \<open>sA2\<close>.\<close>

definition ann_twice :: server where
  "ann_twice =
     \<lparr> onlineUsers = [(''u1'', presence_of sockA2 4)], meetingParticipants = [],
       connected = (\<lambda>_. {})(Main_nsp := {''sA2'', ''sA''}),
       rooms = (\<lambda>_. {}) \<rparr>"

section \<open>Reading the store\<close>

text \<open>The participant record that connection \<open>k\<close> holds in meeting \<open>m\<close>, if any.\<close>

definition record_of :: "server \<Rightarrow> jv \<Rightarrow> sid \<Rightarrow> participant option" where
  "record_of st m k =
     (case map_of (meetingParticipants st) m of None \<Rightarrow> None | Some ps \<Rightarrow> map_of ps k)"

section \<open>Which listeners answer an event\<close>


lemma on_join_meeting: "on_event VideoConference ''join-meeting'' = [join_meeting]"
  by (simp add: on_event_def handlers_def vc_handlers_def)


lemma on_get_participants: "on_event VideoConference ''get-participants'' = [get_participants]"
  by (simp add: on_event_def handlers_def vc_handlers_def)

lemma on_leave_meeting: "on_event VideoConference ''leave-meeting'' = [leave_meeting]"
  by (simp add: on_event_def handlers_def vc_handlers_def)




lemmas sample_defs = ann_def bob_def sockA_def sockA2_def sockB_def in_M1_def init_def

lemma two_in_M1_reached:
  "run_events [Connect VideoConference sockA 0 0, Connect VideoConference sockB 0 0,
               Client VideoConference sockA ''join-meeting'' in_M1,
               Client VideoConference sockB ''join-meeting'' in_M1] init = Inr two_in_M1"
  by (simp add: client_event_def on_join_meeting join_meeting_def connect_def
        socket_join_def Map_get_def nullish_def room_name_def two_in_M1_def
        others_def sample_defs Let_def)



section \<open>Leaving a meeting\<close>

text \<open>
  Claim C1. \<open>leave-meeting\<close> is to remove the leaver's participant record from the meeting,
  notify the room, and drop the meeting's entry once it is empty. The handler leaves the
  room and sends the notice, and never touches \<open>meetingParticipants\<close>: after the only
  participant of \<open>M1\<close> has left, the store still holds the meeting with that record, and
  another connection asking for the roster is handed the departed participant. The
  \<open>disconnect\<close> handler of the same namespace does the removal that this one lacks.
\<close>

theorem leave_meeting_keeps_record:
  "run_events [Connect VideoConference sockA 0 0, Connect VideoConference sockB 0 0,
               Client VideoConference sockA ''join-meeting'' in_M1,
               Client VideoConference sockA ''leave-meeting'' in_M1] init = Inr a_left_M1
   \<and> meetingParticipants a_left_M1 = [(JStr ''M1'', [(''sA'', new_participant sockA)])]
   \<and> step (Client VideoConference sockB ''get-participants'' in_M1) a_left_M1
       = Inr (a_left_M1, [(ToSelf, ''existing-participants'',
                             JArr [participant_jv (new_participant sockA)])])"
  by (simp add: client_event_def on_join_meeting on_leave_meeting on_get_participants
        join_meeting_def leave_meeting_def get_participants_def connect_def
        socket_join_def socket_leave_def Map_get_def nullish_def room_name_def
        others_def new_participant_def a_left_M1_def sample_defs Let_def)

section \<open>Setting the peer identifier\<close>




section \<open>Asking for the roster\<close>



section \<open>Relaying offers, answers and candidates\<close>




section \<open>Listeners registered twice\<close>



section \<open>Closing a video-conference connection\<close>

lemma cleanup_fst_Cons:
  "fst (cleanup_meetings s ((m, ps) # mp)) =
     (if map_of ps (sock_id s) = None then (m, ps) # fst (cleanup_meetings s mp)
      else if AList.delete (sock_id s) ps = [] then fst (cleanup_meetings s mp)
      else (m, AList.delete (sock_id s) ps) # fst (cleanup_meetings s mp))"
  by (simp add: Let_def split: prod.splits)

lemma cleanup_keys: "fst ` set (fst (cleanup_meetings s mp)) \<subseteq> fst ` set mp"
proof (induction mp)
  case Nil
  then show ?case by simp
next
  case (Cons e mp)
  obtain m ps where e: "e = (m, ps)" by (cases e)
  show ?case unfolding e cleanup_fst_Cons using Cons by auto
qed

lemma cleanup_distinct:
  "distinct (map fst mp) \<Longrightarrow> distinct (map fst (fst (cleanup_meetings s mp)))"
proof (induction mp)
  case Nil
  then show ?case by simp
next
  case (Cons e mp)
  obtain m ps where e: "e = (m, ps)" by (cases e)
  have "m \<notin> fst ` set (fst (cleanup_meetings s mp))"
    using Cons.prems cleanup_keys[of s mp] e by auto
  then show ?case
    unfolding e cleanup_fst_Cons using Cons e by simp
qed

lemma cleanup_map_of:
  "distinct (map fst mp) \<Longrightarrow>
   map_of (fst (cleanup_meetings s mp)) m =
     (case map_of mp m of
        None \<Rightarrow> None
      | Some ps \<Rightarrow>
          if map_of ps (sock_id s) = None then Some ps
          else if AList.delete (sock_id s) ps = [] then None
          else Some (AList.delete (sock_id s) ps))"
proof (induction mp)
  case Nil
  then show ?case by simp
next
  case (Cons e mp)
  obtain k ps where e: "e = (k, ps)" by (cases e)
  have absent: "map_of (fst (cleanup_meetings s mp)) k = None"
    using Cons.prems cleanup_keys[of s mp] e by (auto simp: map_of_eq_None_iff)
  have IH: "map_of (fst (cleanup_meetings s mp)) m =
     (case map_of mp m of
        None \<Rightarrow> None
      | Some ps \<Rightarrow>
          if map_of ps (sock_id s) = None then Some ps
          else if AList.delete (sock_id s) ps = [] then None
          else Some (AList.delete (sock_id s) ps))"
    using Cons by simp
  show ?case
  proof (cases "m = k")
    case True
    then show ?thesis unfolding e cleanup_fst_Cons using absent by simp
  next
    case False
    then show ?thesis unfolding e cleanup_fst_Cons using IH by simp
  qed
qed

text \<open>
  Claim C4. When a connection of the video-conference namespace closes, and the store's
  meetings have distinct keys (as the keys of a \<open>Map\<close> are), then for every meeting id:
  a meeting in which the connection holds no record keeps its participants as they are; a
  meeting in which it holds one loses that record and, if no participant remains, loses
  its entry in the store. Afterwards the connection holds no record in any meeting.
\<close>

theorem disconnect_cleans_meetings:
  assumes "distinct (map fst (meetingParticipants st))"
  shows "map_of (meetingParticipants (fst (disconnect VideoConference s st))) m =
           (case map_of (meetingParticipants st) m of
              None \<Rightarrow> None
            | Some ps \<Rightarrow>
                if map_of ps (sock_id s) = None then Some ps
                else if AList.delete (sock_id s) ps = [] then None
                else Some (AList.delete (sock_id s) ps))
       \<and> record_of (fst (disconnect VideoConference s st)) m (sock_id s) = None
       \<and> distinct (map fst (meetingParticipants (fst (disconnect VideoConference s st))))"
proof -
  have mp: "meetingParticipants (fst (disconnect VideoConference s st))
              = fst (cleanup_meetings s (meetingParticipants st))"
    by (simp add: disconnect_def vc_disconnect_def Let_def split: prod.splits)
  have one: "map_of (meetingParticipants (fst (disconnect VideoConference s st))) m =
           (case map_of (meetingParticipants st) m of
              None \<Rightarrow> None
            | Some ps \<Rightarrow>
                if map_of ps (sock_id s) = None then Some ps
                else if AList.delete (sock_id s) ps = [] then None
                else Some (AList.delete (sock_id s) ps))"
    using assms by (simp only: mp cleanup_map_of)
  have two: "record_of (fst (disconnect VideoConference s st)) m (sock_id s) = None"
    unfolding record_of_def one by (simp add: delete_conv' split: option.splits)
  show ?thesis using one two assms by (simp add: mp cleanup_distinct)
qed

theorem disconnect_cleans_meetings_witness:
  "distinct (map fst (meetingParticipants three_meetings))
   \<and> map_of (meetingParticipants (fst (disconnect VideoConference sockA three_meetings)))
        (JStr ''M1'') = Some [(''sB'', new_participant sockB)]
   \<and> map_of (meetingParticipants (fst (disconnect VideoConference sockA three_meetings)))
        (JStr ''M2'') = None
   \<and> map_of (meetingParticipants (fst (disconnect VideoConference sockA three_meetings)))
        (JStr ''M3'') = Some [(''sB'', new_participant sockB)]"
  using disconnect_cleans_meetings [of three_meetings sockA "JStr ''M1''"]
        disconnect_cleans_meetings [of three_meetings sockA "JStr ''M2''"]
        disconnect_cleans_meetings [of three_meetings sockA "JStr ''M3''"]
  by (simp add: three_meetings_def sockA_def AList.delete_eq)

section \<open>Joining a meeting\<close>





section \<open>Presence\<close>

text \<open>
  Claim C2, as the handlers have it. A new connection of the main namespace stores the
  presence record of its principal over whatever record was there, the record naming the
  new connection; its two \<open>connection\<close> listeners together emit \<open>user-online\<close> once. The
  close of any connection of the principal deletes the principal's presence record and
  emits \<open>user-offline\<close> for the principal, whichever connection the record names.
\<close>

theorem presence_registration:
  "map_of (onlineUsers (fst (connect Main_nsp s now1 now2 st))) (user_id (user s))
     = Some (presence_of s now2)
   \<and> filter (\<lambda>(t, e, p). e = ''user-online'') (snd (connect Main_nsp s now1 now2 st))
       = [(Broadcast, ''user-online'', presence_event s)]
   \<and> map_of (onlineUsers (fst (disconnect Main_nsp s st))) (user_id (user s)) = None
   \<and> snd (disconnect Main_nsp s st) = [(Broadcast, ''user-offline'', presence_event s)]"
  by (simp add: connect_def disconnect_def main_connection_1_def main_connection_2_def
        main_disconnect_def Let_def update_conv' delete_conv')

theorem presence_registration_witness:
  "map_of (onlineUsers (fst (connect Main_nsp sockA2 3 4
                               (fst (connect Main_nsp sockA 1 2 init))))) ''u1''
     = Some (presence_of sockA2 4)
   \<and> filter (\<lambda>(t, e, p). e = ''user-online'')
        (snd (connect Main_nsp sockA2 3 4 (fst (connect Main_nsp sockA 1 2 init))))
       = [(Broadcast, ''user-online'', presence_event sockA2)]
   \<and> socketId (presence_of sockA2 4) = ''sA2''"
proof -
  have u: "user_id (user sockA2) = ''u1''"
    by (simp add: sockA2_def ann_def)
  show ?thesis
    using presence_registration [of sockA2 3 4 "fst (connect Main_nsp sockA 1 2 init)"]
    unfolding u by (simp add: presence_of_def sockA2_def)
qed

text \<open>
  Against C2 as stated ("the old connection's disconnect does not broadcast offline once a
  newer connection has replaced the record"): \<open>sA\<close> and then \<open>sA2\<close> connect for the same
  principal, so the record names \<open>sA2\<close>; when \<open>sA\<close> closes, the record is deleted and
  \<open>user-offline\<close> for the principal is sent to \<open>sA2\<close>, which is still connected.
\<close>

theorem old_disconnect_broadcasts_offline:
  "run_events [Connect Main_nsp sockA 1 2, Connect Main_nsp sockA2 3 4] init = Inr ann_twice
   \<and> map_of (onlineUsers ann_twice) ''u1'' = Some (presence_of sockA2 4)
   \<and> snd (disconnect Main_nsp sockA ann_twice)
       = [(Broadcast, ''user-offline'',
             JObj [(''userId'', JStr ''u1''), (''userEmail'', JStr ''ann@example.com'')])]
   \<and> onlineUsers (fst (disconnect Main_nsp sockA ann_twice)) = []
   \<and> ''sA2'' \<in> connected (fst (disconnect Main_nsp sockA ann_twice)) Main_nsp
   \<and> recipients (fst (disconnect Main_nsp sockA ann_twice)) Main_nsp ''sA'' Broadcast
       = {''sA2''}"
  by (simp add: connect_def disconnect_def main_connection_1_def main_connection_2_def
        main_disconnect_def presence_of_def presence_event_def recipients_def Let_def
        insert_Diff_if ann_twice_def sample_defs)

section \<open>The scope of every emission\<close>

lemma run_handlers_emissions:
  assumes "\<And>h st st' ems x. h \<in> set hs \<Longrightarrow> h s data st = Inr (st', ems) \<Longrightarrow> x \<in> set ems \<Longrightarrow> P x"
    and "run_handlers hs s data st = Inr (st', ems)"
    and "x \<in> set ems"
  shows "P x"
  using assms
proof (induction hs arbitrary: st st' ems)
  case Nil
  then show ?case by simp
next
  case (Cons h hs)
  from Cons.prems(2) obtain st1 ems1 ems2 where
    h: "h s data st = Inr (st1, ems1)" and
    rest: "run_handlers hs s data st1 = Inr (st', ems2)" and
    ems: "ems = ems1 @ ems2"
    by (auto split: sum.splits prod.splits)
  from Cons.prems(3) ems consider "x \<in> set ems1" | "x \<in> set ems2" by auto
  then show ?case
  proof cases
    case 1
    then show ?thesis using Cons.prems(1) [of h st st1 ems1 x] h by simp
  next
    case 2
    have "\<And>h st st' ems x. h \<in> set hs \<Longrightarrow> h s data st = Inr (st', ems)
            \<Longrightarrow> x \<in> set ems \<Longrightarrow> P x"
      using Cons.prems(1) by (meson list.set_intros(2))
    then show ?thesis using rest 2 by (rule Cons.IH)
  qed
qed

lemma on_event_handlers: "h \<in> set (on_event ns ev) \<Longrightarrow> (ev, h) \<in> set (handlers ns)"
  by (auto simp: on_event_def)

lemma relay_emissions:
  "relay prefix key ev payload s data st = Inr (st', ems) \<Longrightarrow> x \<in> set ems \<Longrightarrow>
     fst x = To (room_name prefix (field data key))"
  by (auto simp: relay_def split: if_splits)


lemma main_handlers_scope:
  assumes "(name, h) \<in> set main_handlers" and "h s data st = Inr (st', ems)" and "x \<in> set ems"
  shows "fst x = To (room_name ''conversation:'' (field data ''conversationId''))"
proof -
  consider "h = join_presence"
    | ev payload where "h = relay ''conversation:'' ''conversationId'' ev payload"
    using assms(1)
    by (auto simp: main_handlers_def send_message_def typing_def stop_typing_def
          messages_read_def)
  then show ?thesis
  proof cases
    case 1
    then show ?thesis using assms(2,3) by (simp add: join_presence_def)
  next
    case 2
    then show ?thesis using assms(2,3) relay_emissions by blast
  qed
qed







lemma run_handlers_scope:
  assumes "run_handlers (on_event ns ev) s data st = Inr (st', ems)"
    and "\<And>h st st' ems x. (ev, h) \<in> set (handlers ns) \<Longrightarrow> h s data st = Inr (st', ems)
            \<Longrightarrow> x \<in> set ems \<Longrightarrow> P x"
  shows "\<forall>x \<in> set ems. P x"
proof
  fix x assume x: "x \<in> set ems"
  show "P x"
  proof (rule run_handlers_emissions [OF _ assms(1) x])
    fix h st st' ems x
    assume "h \<in> set (on_event ns ev)" "h s data st = Inr (st', ems)" "x \<in> set ems"
    then show "P x" using on_event_handlers [of h ns ev] assms(2) by blast
  qed
qed





section \<open>Conversation rooms of the main namespace\<close>

lemma run_handlers_state:
  assumes "\<And>h st st' ems. h \<in> set hs \<Longrightarrow> h s data st = Inr (st', ems) \<Longrightarrow> Q st' = Q st"
    and "run_handlers hs s data st = Inr (st', ems)"
  shows "Q st' = Q st"
  using assms
proof (induction hs arbitrary: st st' ems)
  case Nil
  then show ?case by simp
next
  case (Cons h hs)
  from Cons.prems(2) obtain st1 ems1 ems2 where
    h: "h s data st = Inr (st1, ems1)" and
    rest: "run_handlers hs s data st1 = Inr (st', ems2)"
    by (auto split: sum.splits prod.splits)
  have "Q st1 = Q st" using Cons.prems(1) [of h st st1 ems1] h by simp
  moreover have "\<And>h st st' ems. h \<in> set hs \<Longrightarrow> h s data st = Inr (st', ems)
            \<Longrightarrow> Q st' = Q st"
    using Cons.prems(1) by (meson list.set_intros(2))
  then have "Q st' = Q st1" using rest by (rule Cons.IH)
  ultimately show ?case by simp
qed

lemma relay_state: "relay prefix key ev payload s data st = Inr (st', ems) \<Longrightarrow> st' = st"
  by (auto simp: relay_def split: if_splits)

lemma handler_main_rooms:
  assumes "(name, h) \<in> set (handlers ns)" and "h s data st = Inr (st', ems)"
  shows "rooms st' (Main_nsp, r) = rooms st (Main_nsp, r)"
proof (cases ns)
  case Main_nsp
  then consider "h = join_presence"
    | ev payload where "h = relay ''conversation:'' ''conversationId'' ev payload"
    using assms(1)
    by (auto simp: handlers_def main_handlers_def send_message_def typing_def stop_typing_def
          messages_read_def)
  then show ?thesis
  proof cases
    case 1
    then show ?thesis using assms(2) by (simp add: join_presence_def)
  next
    case 2
    then show ?thesis using assms(2) relay_state by blast
  qed
next
  case Signaling
  then consider "h = join_room" | "h = leave_room" | "h = offer" | "h = answer"
    using assms(1) by (auto simp: handlers_def signaling_handlers_def)
  then show ?thesis using assms(2)
    by cases (auto simp: join_room_def leave_room_def offer_def answer_def socket_join_def
                socket_leave_def split: if_splits)
next
  case Tasks
  then show ?thesis using assms
    by (auto simp: handlers_def tasks_handlers_def task_event_def)
next
  case Docs
  then consider "h = join_document" | "h = leave_document"
    | ev payload where "h = relay ''doc:'' ''docId'' ev payload"
    using assms(1)
    by (auto simp: handlers_def docs_handlers_def document_update_def cursor_update_def)
  then show ?thesis
  proof cases
    case 1
    then show ?thesis using assms(2) by (auto simp: join_document_def socket_join_def)
  next
    case 2
    then show ?thesis using assms(2) by (auto simp: leave_document_def socket_leave_def)
  next
    case 3
    then show ?thesis using assms(2) relay_state by blast
  qed
next
  case VideoConference
  then consider "h = join_meeting" | "h = peer_connected" | "h = get_participants"
    | "h = leave_meeting"
    | ev payload where "h = relay ''meeting:'' ''meetingId'' ev payload"
    using assms(1)
    by (auto simp: handlers_def vc_handlers_def webrtc_def participant_update_1_def
          speaking_status_def chat_message_1_def reaction_def forward_def)
  then show ?thesis
  proof cases
    case 1
    then show ?thesis using assms(2)
      by (auto simp: join_meeting_def Let_def socket_join_def split: if_splits prod.splits)
  next
    case 2
    then show ?thesis using assms(2)
      by (auto simp: peer_connected_def Let_def split: if_splits)
  next
    case 3
    then show ?thesis using assms(2)
      by (auto simp: get_participants_def split: if_splits option.splits)
  next
    case 4
    then show ?thesis using assms(2)
      by (auto simp: leave_meeting_def Let_def socket_leave_def split: if_splits)
  next
    case 5
    then show ?thesis using assms(2) relay_state by blast
  qed
next
  case Chat
  then show ?thesis using assms(1) by (simp add: handlers_def)
qed

lemma client_event_main_rooms:
  assumes "client_event ns s ev data st = Inr (st', ems)"
  shows "rooms st' (Main_nsp, r) = rooms st (Main_nsp, r)"
proof (rule run_handlers_state [where Q = "\<lambda>st. rooms st (Main_nsp, r)"])
  show "run_handlers (on_event ns ev) s data st = Inr (st', ems)"
    using assms by (simp add: client_event_def)
next
  fix h st st' ems
  assume "h \<in> set (on_event ns ev)" "h s data st = Inr (st', ems)"
  then show "rooms st' (Main_nsp, r) = rooms st (Main_nsp, r)"
    using on_event_handlers handler_main_rooms by blast
qed

lemma connect_rooms: "rooms (fst (connect ns s now1 now2 st)) = rooms st"
  by (simp add: connect_def main_connection_1_def main_connection_2_def Let_def)

lemma disconnect_rooms: "rooms (fst (disconnect ns s st)) (n, r) \<subseteq> rooms st (n, r)"
  by (auto simp: disconnect_def main_disconnect_def vc_disconnect_def Let_def
        split: prod.splits)

lemma main_rooms_empty: "reachable st \<Longrightarrow> rooms st (Main_nsp, r) = {}"
proof (induction rule: reachable.induct)
  case reachable_init
  then show ?case by (simp add: init_def)
next
  case (reachable_step st e st' ems)
  show ?case
  proof (cases e)
    case (Connect ns s now1 now2)
    then have "st' = fst (connect ns s now1 now2 st)"
      using reachable_step.hyps(2) by auto
    then show ?thesis using reachable_step.IH by (simp add: connect_rooms)
  next
    case (Client ns s ev data)
    then show ?thesis
      using reachable_step.hyps(2) reachable_step.IH client_event_main_rooms by simp
  next
    case (Disconnect ns s)
    then have "st' = fst (disconnect ns s st)"
      using reachable_step.hyps(2) by auto
    then show ?thesis
      using reachable_step.IH disconnect_rooms [of ns s st Main_nsp r] by simp
  qed
qed

text \<open>
  Claim C10. No handler of any namespace changes the membership of a room of the main
  namespace, so in every reachable state every room of the main namespace, and every
  \<open>conversation:\<close> room among them, has no member. Each of \<open>send-message\<close>, \<open>typing\<close>,
  \<open>stop-typing\<close> and \<open>messages-read\<close> makes its emission to the conversation room, and that
  emission has no recipient.
\<close>

theorem conversation_rooms_empty:
  assumes "reachable st"
    and "ev \<in> {''send-message'', ''typing'', ''stop-typing'', ''messages-read''}"
    and "client_event Main_nsp s ev data st = Inr (st', ems)"
  shows "rooms st (Main_nsp, room_name ''conversation:'' c) = {}
       \<and> rooms st' (Main_nsp, room_name ''conversation:'' c) = {}
       \<and> ems \<noteq> []
       \<and> (\<forall>(t, e, p) \<in> set ems.
             t = To (room_name ''conversation:'' (field data ''conversationId''))
             \<and> recipients st' Main_nsp (sock_id s) t = {})"
proof -
  have "reachable st'"
    using assms(1,3) reachable_step [of st "Client Main_nsp s ev data" st' ems] by simp
  then have empty: "\<And>r. rooms st' (Main_nsp, r) = {}"
    by (rule main_rooms_empty)
  have scope: "\<forall>x \<in> set ems. fst x = To (room_name ''conversation:'' (field data ''conversationId''))"
    using main_handlers_scope assms(3)
    by (intro run_handlers_scope [of Main_nsp ev s data st st' ems])
       (simp_all add: client_event_def handlers_def)
  have "ems \<noteq> []"
    using assms(2,3)
    by (auto simp: client_event_def on_event_def handlers_def main_handlers_def
          send_message_def typing_def stop_typing_def messages_read_def relay_def
          split: if_splits)
  then show ?thesis
    using scope empty main_rooms_empty [OF assms(1)]
    by (auto simp: recipients_def)
qed

theorem conversation_rooms_empty_witness:
  "reachable (fst (connect Main_nsp sockB 3 4 (fst (connect Main_nsp sockA 1 2 init))))
   \<and> ''typing'' \<in> {''send-message'', ''typing'', ''stop-typing'', ''messages-read''}
   \<and> client_event Main_nsp sockA ''typing'' typing_c1
        (fst (connect Main_nsp sockB 3 4 (fst (connect Main_nsp sockA 1 2 init))))
       = Inr (fst (connect Main_nsp sockB 3 4 (fst (connect Main_nsp sockA 1 2 init))),
              [(To (JStr ''conversation:c1''), ''user-typing'', presence_event sockA)])
   \<and> recipients (fst (connect Main_nsp sockB 3 4 (fst (connect Main_nsp sockA 1 2 init))))
        Main_nsp (sock_id sockA) (To (JStr ''conversation:c1'')) = {}"
proof -
  let ?st1 = "fst (connect Main_nsp sockA 1 2 init)"
  let ?st2 = "fst (connect Main_nsp sockB 3 4 ?st1)"
  have "reachable ?st1"
    using reachable_step [OF reachable_init, of "Connect Main_nsp sockA 1 2" ?st1
            "snd (connect Main_nsp sockA 1 2 init)"] by simp
  then have r: "reachable ?st2"
    using reachable_step [of ?st1 "Connect Main_nsp sockB 3 4" ?st2
            "snd (connect Main_nsp sockB 3 4 ?st1)"] by simp
  have k: "''typing'' \<in> {''send-message'', ''typing'', ''stop-typing'', ''messages-read''}"
    by simp
  have e: "client_event Main_nsp sockA ''typing'' typing_c1 ?st2
       = Inr (?st2, [(To (JStr ''conversation:c1''), ''user-typing'', presence_event sockA)])"
    by (simp add: client_event_def on_event_def handlers_def main_handlers_def typing_def
          relay_def nullish_def typing_c1_def room_name_def)
  from conversation_rooms_empty [OF r k e, of "JStr ''c1''"] r e
  show ?thesis by (simp add: typing_c1_def room_name_def)
qed

end
